theory Spec2Isabelle
  imports Main "HOL-Library.Sublist"
begin

section \<open>JavaScript values and the browser's global object\<close>

text \<open>
  The file \<^verbatim>\<open>implementors/core/ops/trait.InPlace.js\<close> is one immediately-invoked function:
  it builds a local object \<^verbatim>\<open>implementors\<close> by ten property assignments and then either
  calls \<^verbatim>\<open>window.register_implementors\<close> with it or stores it in
  \<^verbatim>\<open>window.pending_implementors\<close>.

  A JavaScript value is modelled by its kind. Numbers are abstracted to the integers
  and \<open>NaN\<close> (only the test against zero matters to the script); a function value is
  the identity of a function of the host page. The properties of an object are kept in
  insertion order, which is the order JavaScript enumerates string keys in.
\<close>

type_synonym fid = nat

datatype jsval =
    Undefined
  | Null
  | Bool bool
  | Num int
  | NaN
  | Str string
  | Arr "jsval list"
  | Obj "(string \<times> jsval) list"
  | Fun fid

text \<open>
  A data property of the global object: its value and whether it can be assigned to
  (the attribute \<^verbatim>\<open>writable\<close> of its descriptor).
\<close>

record property =
  val :: jsval
  writable :: bool

text \<open>
  The global object \<^verbatim>\<open>window\<close>, as far as the script sees it: its data properties by name.
  A name outside the domain is a property that does not exist. Accessor properties
  (a getter or setter installed on \<^verbatim>\<open>window\<close>) are outside the model.
\<close>

type_synonym window = "string \<rightharpoonup> property"

text \<open>
  What the script can raise by itself is the \<^verbatim>\<open>TypeError\<close> of calling a value that is
  not a function; anything else that ends it abruptly is a value thrown by the function
  it called.
\<close>

datatype error =
    NotAFunction jsval
  | Uncaught jsval

text \<open>
  The end of a run: \<open>Some (Inr w)\<close> is normal completion with the global object \<open>w\<close>,
  \<open>Some (Inl e)\<close> an uncaught error, \<open>None\<close> a run that does not return.
\<close>

type_synonym outcome = "(error + window) option"

text \<open>
  The functions of the host page are not part of the file. They are a parameter of the
  model: what the function with a given identity does when called with given arguments
  on a given global object. A host function may change any global and return
  (\<open>Some (Inr w)\<close>), throw a value (\<open>Some (Inl x)\<close>), or loop (\<open>None\<close>).
\<close>

type_synonym host = "fid \<Rightarrow> jsval list \<Rightarrow> window \<Rightarrow> (jsval + window) option"

text \<open>
  A host function need not be determined by its arguments and the global object: it can
  read the clock or \<^verbatim>\<open>Math.random()\<close>. Such a page gives, for every call, the set of the
  ways the call can go.
\<close>

type_synonym nd_host = "fid \<Rightarrow> jsval list \<Rightarrow> window \<Rightarrow> (jsval + window) option set"

text \<open>
  The effects the script's own statements have on the shared environment: the call of a
  function with its argument list, and the storing of a value in a property of
  \<^verbatim>\<open>window\<close>. An assignment that stores nothing leaves no event.
\<close>

datatype event =
    Call fid "jsval list"
  | Write string jsval

text \<open>\<^verbatim>\<open>ToBoolean\<close>, the test of an \<^verbatim>\<open>if\<close>.\<close>

fun truthy :: "jsval \<Rightarrow> bool" where
  "truthy Undefined = False"
| "truthy Null = False"
| "truthy (Bool b) = b"
| "truthy (Num n) = (n \<noteq> 0)"
| "truthy NaN = False"
| "truthy (Str s) = (s \<noteq> [])"
| "truthy (Arr xs) = True"
| "truthy (Obj kvs) = True"
| "truthy (Fun f) = True"

text \<open>Reading \<^verbatim>\<open>window.k\<close>: a property that does not exist reads as \<^verbatim>\<open>undefined\<close>.\<close>

definition get_prop :: "window \<Rightarrow> string \<Rightarrow> jsval" where
  "get_prop w k = (case w k of None \<Rightarrow> Undefined | Some p \<Rightarrow> val p)"

text \<open>
  The assignment \<^verbatim>\<open>obj[k] = v\<close> on an ordinary object: an existing key keeps its place
  and takes the new value, a new key goes last.
\<close>

fun put :: "(string \<times> jsval) list \<Rightarrow> string \<Rightarrow> jsval \<Rightarrow> (string \<times> jsval) list" where
  "put [] k v = [(k, v)]"
| "put ((k', v') # kvs) k v = (if k' = k then (k, v) # kvs else (k', v') # put kvs k v)"

text \<open>
  Nothing in the file catches an exception: a value thrown by a called function ends the
  script as an uncaught error.
\<close>

fun propagate :: "(jsval + window) option \<Rightarrow> outcome" where
  "propagate None = None"
| "propagate (Some (Inl x)) = Some (Inl (Uncaught x))"
| "propagate (Some (Inr w)) = Some (Inr w)"

text \<open>
  The call \<^verbatim>\<open>v(args)\<close>: a value that is not a function raises the \<^verbatim>\<open>TypeError\<close> before
  anything is called; a function runs on the current global object, and the call ends
  the way the function ends.
\<close>

fun call :: "host \<Rightarrow> jsval \<Rightarrow> jsval list \<Rightarrow> window \<Rightarrow> event list \<times> outcome" where
  "call h (Fun f) args w = ([Call f args], propagate (h f args w))"
| "call h v args w = ([], Some (Inl (NotAFunction v)))"

text \<open>The same call on a page whose functions can go more than one way.\<close>

fun call_any :: "nd_host \<Rightarrow> jsval \<Rightarrow> jsval list \<Rightarrow> window \<Rightarrow> (event list \<times> outcome) set" where
  "call_any H (Fun f) args w = (\<lambda>res. ([Call f args], propagate res)) ` H f args w"
| "call_any H v args w = {([], Some (Inl (NotAFunction v)))}"

text \<open>
  The assignment \<^verbatim>\<open>window.k = v\<close>. The file has no \<^verbatim>\<open>"use strict"\<close>, so it runs in sloppy
  mode: a property that does not exist is created, writable, with the value; a writable
  property takes the value and keeps its attribute; on a property that is not writable
  the assignment is dropped without an error and the property keeps its value.
\<close>

definition data :: "jsval \<Rightarrow> property" where
  "data v = \<lparr>val = v, writable = True\<rparr>"

definition assignable :: "window \<Rightarrow> string \<Rightarrow> bool" where
  "assignable w k = (case w k of None \<Rightarrow> True | Some p \<Rightarrow> writable p)"

definition store :: "window \<Rightarrow> string \<Rightarrow> jsval \<Rightarrow> window" where
  "store w k v = w(k \<mapsto> (case w k of None \<Rightarrow> data v | Some p \<Rightarrow> p\<lparr>val := v\<rparr>))"

definition set_global :: "window \<Rightarrow> string \<Rightarrow> jsval \<Rightarrow> event list \<times> outcome" where
  "set_global w k v =
    (if assignable w k then ([Write k v], Some (Inr (store w k v)))
     else ([], Some (Inr w)))"

section \<open>The data table\<close>

text \<open>
  The right-hand sides of the ten assignments \<^verbatim>\<open>implementors["..."] = [...]\<close>, in the
  order of the file. A trailing comma in an array literal adds no element.
\<close>

definition lazy_static_impls :: jsval where
  "lazy_static_impls = Arr
    [Str ''impl&lt;T&gt; <a class='trait' href='https://doc.rust-lang.org/nightly/core/ops/trait.InPlace.html' title='core::ops::InPlace'>InPlace</a>&lt;T&gt; for <a class='struct' href='https://doc.rust-lang.org/nightly/alloc/boxed/struct.IntermediateBox.html' title='alloc::boxed::IntermediateBox'>IntermediateBox</a>&lt;T&gt;'',
     Str ''impl&lt;'a, T&gt; <a class='trait' href='https://doc.rust-lang.org/nightly/core/ops/trait.InPlace.html' title='core::ops::InPlace'>InPlace</a>&lt;T&gt; for <a class='struct' href='https://doc.rust-lang.org/nightly/collections/linked_list/struct.FrontPlace.html' title='collections::linked_list::FrontPlace'>FrontPlace</a>&lt;'a, T&gt;'',
     Str ''impl&lt;'a, T&gt; <a class='trait' href='https://doc.rust-lang.org/nightly/core/ops/trait.InPlace.html' title='core::ops::InPlace'>InPlace</a>&lt;T&gt; for <a class='struct' href='https://doc.rust-lang.org/nightly/collections/linked_list/struct.BackPlace.html' title='collections::linked_list::BackPlace'>BackPlace</a>&lt;'a, T&gt;'']"

definition regex_syntax_impls :: jsval where
  "regex_syntax_impls = Arr
    [Str ''impl&lt;T&gt; <a class='trait' href='https://doc.rust-lang.org/nightly/core/ops/trait.InPlace.html' title='core::ops::InPlace'>InPlace</a>&lt;T&gt; for <a class='struct' href='https://doc.rust-lang.org/nightly/alloc/boxed/struct.IntermediateBox.html' title='alloc::boxed::IntermediateBox'>IntermediateBox</a>&lt;T&gt;'',
     Str ''impl&lt;'a, T&gt; <a class='trait' href='https://doc.rust-lang.org/nightly/core/ops/trait.InPlace.html' title='core::ops::InPlace'>InPlace</a>&lt;T&gt; for <a class='struct' href='https://doc.rust-lang.org/nightly/collections/linked_list/struct.FrontPlace.html' title='collections::linked_list::FrontPlace'>FrontPlace</a>&lt;'a, T&gt;'',
     Str ''impl&lt;'a, T&gt; <a class='trait' href='https://doc.rust-lang.org/nightly/core/ops/trait.InPlace.html' title='core::ops::InPlace'>InPlace</a>&lt;T&gt; for <a class='struct' href='https://doc.rust-lang.org/nightly/collections/linked_list/struct.BackPlace.html' title='collections::linked_list::BackPlace'>BackPlace</a>&lt;'a, T&gt;'']"

definition libc_impls :: jsval where
  "libc_impls = Arr
    [Str ''impl&lt;T&gt; <a class='trait' href='https://doc.rust-lang.org/nightly/core/ops/trait.InPlace.html' title='core::ops::InPlace'>InPlace</a>&lt;T&gt; for <a class='struct' href='https://doc.rust-lang.org/nightly/alloc/boxed/struct.IntermediateBox.html' title='alloc::boxed::IntermediateBox'>IntermediateBox</a>&lt;T&gt;'',
     Str ''impl&lt;'a, T&gt; <a class='trait' href='https://doc.rust-lang.org/nightly/core/ops/trait.InPlace.html' title='core::ops::InPlace'>InPlace</a>&lt;T&gt; for <a class='struct' href='https://doc.rust-lang.org/nightly/collections/linked_list/struct.FrontPlace.html' title='collections::linked_list::FrontPlace'>FrontPlace</a>&lt;'a, T&gt;'',
     Str ''impl&lt;'a, T&gt; <a class='trait' href='https://doc.rust-lang.org/nightly/core/ops/trait.InPlace.html' title='core::ops::InPlace'>InPlace</a>&lt;T&gt; for <a class='struct' href='https://doc.rust-lang.org/nightly/collections/linked_list/struct.BackPlace.html' title='collections::linked_list::BackPlace'>BackPlace</a>&lt;'a, T&gt;'']"

definition serde_impls :: jsval where
  "serde_impls = Arr
    [Str ''impl&lt;T&gt; <a class='trait' href='https://doc.rust-lang.org/nightly/core/ops/trait.InPlace.html' title='core::ops::InPlace'>InPlace</a>&lt;T&gt; for <a class='struct' href='https://doc.rust-lang.org/nightly/alloc/boxed/struct.IntermediateBox.html' title='alloc::boxed::IntermediateBox'>IntermediateBox</a>&lt;T&gt;'',
     Str ''impl&lt;'a, T&gt; <a class='trait' href='https://doc.rust-lang.org/nightly/core/ops/trait.InPlace.html' title='core::ops::InPlace'>InPlace</a>&lt;T&gt; for <a class='struct' href='https://doc.rust-lang.org/nightly/collections/linked_list/struct.FrontPlace.html' title='collections::linked_list::FrontPlace'>FrontPlace</a>&lt;'a, T&gt;'',
     Str ''impl&lt;'a, T&gt; <a class='trait' href='https://doc.rust-lang.org/nightly/core/ops/trait.InPlace.html' title='core::ops::InPlace'>InPlace</a>&lt;T&gt; for <a class='struct' href='https://doc.rust-lang.org/nightly/collections/linked_list/struct.BackPlace.html' title='collections::linked_list::BackPlace'>BackPlace</a>&lt;'a, T&gt;'']"

definition nix_impls :: jsval where
  "nix_impls = Arr
    [Str ''impl&lt;T&gt; <a class='trait' href='https://doc.rust-lang.org/nightly/core/ops/trait.InPlace.html' title='core::ops::InPlace'>InPlace</a>&lt;T&gt; for <a class='struct' href='https://doc.rust-lang.org/nightly/alloc/boxed/struct.IntermediateBox.html' title='alloc::boxed::IntermediateBox'>IntermediateBox</a>&lt;T&gt;'',
     Str ''impl&lt;'a, T&gt; <a class='trait' href='https://doc.rust-lang.org/nightly/core/ops/trait.InPlace.html' title='core::ops::InPlace'>InPlace</a>&lt;T&gt; for <a class='struct' href='https://doc.rust-lang.org/nightly/collections/linked_list/struct.FrontPlace.html' title='collections::linked_list::FrontPlace'>FrontPlace</a>&lt;'a, T&gt;'',
     Str ''impl&lt;'a, T&gt; <a class='trait' href='https://doc.rust-lang.org/nightly/core/ops/trait.InPlace.html' title='core::ops::InPlace'>InPlace</a>&lt;T&gt; for <a class='struct' href='https://doc.rust-lang.org/nightly/collections/linked_list/struct.BackPlace.html' title='collections::linked_list::BackPlace'>BackPlace</a>&lt;'a, T&gt;'']"

definition mio_impls :: jsval where
  "mio_impls = Arr
    [Str ''impl&lt;T&gt; <a class='trait' href='https://doc.rust-lang.org/nightly/core/ops/trait.InPlace.html' title='core::ops::InPlace'>InPlace</a>&lt;T&gt; for <a class='struct' href='https://doc.rust-lang.org/nightly/alloc/boxed/struct.IntermediateBox.html' title='alloc::boxed::IntermediateBox'>IntermediateBox</a>&lt;T&gt;'',
     Str ''impl&lt;'a, T&gt; <a class='trait' href='https://doc.rust-lang.org/nightly/core/ops/trait.InPlace.html' title='core::ops::InPlace'>InPlace</a>&lt;T&gt; for <a class='struct' href='https://doc.rust-lang.org/nightly/collections/linked_list/struct.FrontPlace.html' title='collections::linked_list::FrontPlace'>FrontPlace</a>&lt;'a, T&gt;'',
     Str ''impl&lt;'a, T&gt; <a class='trait' href='https://doc.rust-lang.org/nightly/core/ops/trait.InPlace.html' title='core::ops::InPlace'>InPlace</a>&lt;T&gt; for <a class='struct' href='https://doc.rust-lang.org/nightly/collections/linked_list/struct.BackPlace.html' title='collections::linked_list::BackPlace'>BackPlace</a>&lt;'a, T&gt;'']"

definition ws_impls :: jsval where
  "ws_impls = Arr
    [Str ''impl&lt;'a, T&gt; <a class='trait' href='https://doc.rust-lang.org/nightly/core/ops/trait.InPlace.html' title='core::ops::InPlace'>InPlace</a>&lt;T&gt; for <a class='struct' href='https://doc.rust-lang.org/nightly/collections/linked_list/struct.FrontPlace.html' title='collections::linked_list::FrontPlace'>FrontPlace</a>&lt;'a, T&gt;'',
     Str ''impl&lt;'a, T&gt; <a class='trait' href='https://doc.rust-lang.org/nightly/core/ops/trait.InPlace.html' title='core::ops::InPlace'>InPlace</a>&lt;T&gt; for <a class='struct' href='https://doc.rust-lang.org/nightly/collections/linked_list/struct.BackPlace.html' title='collections::linked_list::BackPlace'>BackPlace</a>&lt;'a, T&gt;'',
     Str ''impl&lt;T&gt; <a class='trait' href='https://doc.rust-lang.org/nightly/core/ops/trait.InPlace.html' title='core::ops::InPlace'>InPlace</a>&lt;T&gt; for <a class='struct' href='https://doc.rust-lang.org/nightly/alloc/boxed/struct.IntermediateBox.html' title='alloc::boxed::IntermediateBox'>IntermediateBox</a>&lt;T&gt;'']"

definition hyper_impls :: jsval where
  "hyper_impls = Arr
    [Str ''impl&lt;'a, T&gt; <a class='trait' href='https://doc.rust-lang.org/nightly/core/ops/trait.InPlace.html' title='core::ops::InPlace'>InPlace</a>&lt;T&gt; for <a class='struct' href='https://doc.rust-lang.org/nightly/collections/linked_list/struct.FrontPlace.html' title='collections::linked_list::FrontPlace'>FrontPlace</a>&lt;'a, T&gt;'',
     Str ''impl&lt;'a, T&gt; <a class='trait' href='https://doc.rust-lang.org/nightly/core/ops/trait.InPlace.html' title='core::ops::InPlace'>InPlace</a>&lt;T&gt; for <a class='struct' href='https://doc.rust-lang.org/nightly/collections/linked_list/struct.BackPlace.html' title='collections::linked_list::BackPlace'>BackPlace</a>&lt;'a, T&gt;'',
     Str ''impl&lt;T&gt; <a class='trait' href='https://doc.rust-lang.org/nightly/core/ops/trait.InPlace.html' title='core::ops::InPlace'>InPlace</a>&lt;T&gt; for <a class='struct' href='https://doc.rust-lang.org/nightly/alloc/boxed/struct.IntermediateBox.html' title='alloc::boxed::IntermediateBox'>IntermediateBox</a>&lt;T&gt;'']"

definition handlebars_impls :: jsval where
  "handlebars_impls = Arr
    [Str ''impl&lt;T&gt; <a class='trait' href='https://doc.rust-lang.org/nightly/core/ops/trait.InPlace.html' title='core::ops::InPlace'>InPlace</a>&lt;T&gt; for <a class='struct' href='https://doc.rust-lang.org/nightly/alloc/boxed/struct.IntermediateBox.html' title='alloc::boxed::IntermediateBox'>IntermediateBox</a>&lt;T&gt;'',
     Str ''impl&lt;'a, T&gt; <a class='trait' href='https://doc.rust-lang.org/nightly/core/ops/trait.InPlace.html' title='core::ops::InPlace'>InPlace</a>&lt;T&gt; for <a class='struct' href='https://doc.rust-lang.org/nightly/collections/linked_list/struct.FrontPlace.html' title='collections::linked_list::FrontPlace'>FrontPlace</a>&lt;'a, T&gt;'',
     Str ''impl&lt;'a, T&gt; <a class='trait' href='https://doc.rust-lang.org/nightly/core/ops/trait.InPlace.html' title='core::ops::InPlace'>InPlace</a>&lt;T&gt; for <a class='struct' href='https://doc.rust-lang.org/nightly/collections/linked_list/struct.BackPlace.html' title='collections::linked_list::BackPlace'>BackPlace</a>&lt;'a, T&gt;'']"

definition iron_impls :: jsval where
  "iron_impls = Arr
    [Str ''impl&lt;'a, T&gt; <a class='trait' href='https://doc.rust-lang.org/nightly/core/ops/trait.InPlace.html' title='core::ops::InPlace'>InPlace</a>&lt;T&gt; for <a class='struct' href='https://doc.rust-lang.org/nightly/collections/linked_list/struct.FrontPlace.html' title='collections::linked_list::FrontPlace'>FrontPlace</a>&lt;'a, T&gt;'',
     Str ''impl&lt;'a, T&gt; <a class='trait' href='https://doc.rust-lang.org/nightly/core/ops/trait.InPlace.html' title='core::ops::InPlace'>InPlace</a>&lt;T&gt; for <a class='struct' href='https://doc.rust-lang.org/nightly/collections/linked_list/struct.BackPlace.html' title='collections::linked_list::BackPlace'>BackPlace</a>&lt;'a, T&gt;'',
     Str ''impl&lt;T&gt; <a class='trait' href='https://doc.rust-lang.org/nightly/core/ops/trait.InPlace.html' title='core::ops::InPlace'>InPlace</a>&lt;T&gt; for <a class='struct' href='https://doc.rust-lang.org/nightly/alloc/boxed/struct.IntermediateBox.html' title='alloc::boxed::IntermediateBox'>IntermediateBox</a>&lt;T&gt;'']"

text \<open>
  \<^verbatim>\<open>var implementors = {};\<close> followed by the ten assignments.
\<close>

definition implementors :: jsval where
  "implementors = Obj
    (put (put (put (put (put (put (put (put (put (put []
      ''lazy_static'' lazy_static_impls)
      ''regex_syntax'' regex_syntax_impls)
      ''libc'' libc_impls)
      ''serde'' serde_impls)
      ''nix'' nix_impls)
      ''mio'' mio_impls)
      ''ws'' ws_impls)
      ''hyper'' hyper_impls)
      ''handlebars'' handlebars_impls)
      ''iron'' iron_impls)"

section \<open>The script\<close>

text \<open>
  The body of the immediately-invoked function after the table is built:
  \<^verbatim>\<open>if (window.register_implementors) { window.register_implementors(implementors); }
  else { window.pending_implementors = implementors; }\<close>
  The variable \<^verbatim>\<open>implementors\<close> is local to the function; the result of the call is
  discarded. A run yields the effects of the script's own statements and how it ends.
\<close>

definition script :: "host \<Rightarrow> window \<Rightarrow> event list \<times> outcome" where
  "script h w =
    (if truthy (get_prop w ''register_implementors'')
     then call h (get_prop w ''register_implementors'') [implementors] w
     else set_global w ''pending_implementors'' implementors)"

text \<open>
  The same body on a page whose functions can go more than one way: the set of the runs
  the script can have from a global object.
\<close>

definition runs :: "nd_host \<Rightarrow> window \<Rightarrow> (event list \<times> outcome) set" where
  "runs H w =
    (if truthy (get_prop w ''register_implementors'')
     then call_any H (get_prop w ''register_implementors'') [implementors] w
     else {set_global w ''pending_implementors'' implementors})"

text \<open>A page whose functions are determined by their arguments and the global object.\<close>

definition certain :: "host \<Rightarrow> nd_host" where
  "certain h f args w = {h f args w}"

section \<open>Vocabulary of the properties\<close>

text \<open>\<^verbatim>\<open>IsCallable\<close>: the values a call expression can invoke.\<close>

fun callable :: "jsval \<Rightarrow> bool" where
  "callable (Fun f) = True"
| "callable v = False"

fun is_call :: "event \<Rightarrow> bool" where
  "is_call (Call f args) = True"
| "is_call (Write k v) = False"

fun is_write :: "event \<Rightarrow> bool" where
  "is_write (Write k v) = True"
| "is_write (Call f args) = False"

text \<open>The values an action hands over: the arguments of a call, the value assigned.\<close>

fun delivered :: "event \<Rightarrow> jsval list" where
  "delivered (Call f args) = args"
| "delivered (Write k v) = [v]"

text \<open>\<^verbatim>\<open>Object.keys\<close> and \<^verbatim>\<open>Object.values\<close> of an object, in enumeration order.\<close>

definition keys :: "jsval \<Rightarrow> string list" where
  "keys v = (case v of Obj kvs \<Rightarrow> map fst kvs | _ \<Rightarrow> [])"

definition vals :: "jsval \<Rightarrow> jsval list" where
  "vals v = (case v of Obj kvs \<Rightarrow> map snd kvs | _ \<Rightarrow> [])"

fun is_string :: "jsval \<Rightarrow> bool" where
  "is_string (Str s) = True"
| "is_string v = False"

text \<open>An array all of whose elements are strings.\<close>

definition string_array :: "jsval \<Rightarrow> bool" where
  "string_array v = (case v of Arr xs \<Rightarrow> list_all is_string xs | _ \<Rightarrow> False)"

text \<open>
  An object all of whose values are arrays of strings. Its keys are strings by the type
  of \<open>Obj\<close>, its values finite lists by the type of \<open>Arr\<close>.
\<close>

definition string_array_map :: "jsval \<Rightarrow> bool" where
  "string_array_map v = (case v of Obj kvs \<Rightarrow> list_all string_array (map snd kvs) | _ \<Rightarrow> False)"

text \<open>
  The three HTML fragments of the table, named after the struct each one links to.
\<close>

definition impl_IntermediateBox :: string where
  "impl_IntermediateBox =
    ''impl&lt;T&gt; <a class='trait' href='https://doc.rust-lang.org/nightly/core/ops/trait.InPlace.html' title='core::ops::InPlace'>InPlace</a>&lt;T&gt; for <a class='struct' href='https://doc.rust-lang.org/nightly/alloc/boxed/struct.IntermediateBox.html' title='alloc::boxed::IntermediateBox'>IntermediateBox</a>&lt;T&gt;''"

definition impl_FrontPlace :: string where
  "impl_FrontPlace =
    ''impl&lt;'a, T&gt; <a class='trait' href='https://doc.rust-lang.org/nightly/core/ops/trait.InPlace.html' title='core::ops::InPlace'>InPlace</a>&lt;T&gt; for <a class='struct' href='https://doc.rust-lang.org/nightly/collections/linked_list/struct.FrontPlace.html' title='collections::linked_list::FrontPlace'>FrontPlace</a>&lt;'a, T&gt;''"

definition impl_BackPlace :: string where
  "impl_BackPlace =
    ''impl&lt;'a, T&gt; <a class='trait' href='https://doc.rust-lang.org/nightly/core/ops/trait.InPlace.html' title='core::ops::InPlace'>InPlace</a>&lt;T&gt; for <a class='struct' href='https://doc.rust-lang.org/nightly/collections/linked_list/struct.BackPlace.html' title='collections::linked_list::BackPlace'>BackPlace</a>&lt;'a, T&gt;''"

text \<open>
  A fragment is the \<^verbatim>\<open>InPlace\<close> implementation for a struct when it links to the trait's
  page under the trait's name and to the struct's page under the struct's name.
\<close>

definition inplace_impl_for :: "string \<Rightarrow> string \<Rightarrow> bool" where
  "inplace_impl_for struct s =
    (sublist ''/core/ops/trait.InPlace.html'' s \<and> sublist ''>InPlace</a>'' s \<and>
     sublist (''/struct.'' @ struct @ ''.html'') s \<and> sublist (''>'' @ struct @ ''</a>'') s)"

text \<open>An array holding exactly the three fragments, in some order.\<close>

definition three_impls :: "jsval \<Rightarrow> bool" where
  "three_impls v =
    (case v of
       Arr xs \<Rightarrow> length xs = 3 \<and>
         set xs = {Str impl_IntermediateBox, Str impl_FrontPlace, Str impl_BackPlace}
     | _ \<Rightarrow> False)"

section \<open>Sample pages\<close>

text \<open>A page that defines neither global.\<close>

definition page_empty :: window where
  "page_empty = Map.empty"

text \<open>\<^verbatim>\<open>window.register_implementors = f0\<close>, a function of the page.\<close>

definition page_with_callback :: window where
  "page_with_callback = [''register_implementors'' \<mapsto> data (Fun 0)]"

text \<open>\<^verbatim>\<open>window.register_implementors = true\<close>.\<close>

definition page_flag :: window where
  "page_flag = [''register_implementors'' \<mapsto> data (Bool True)]"

text \<open>\<^verbatim>\<open>window.register_implementors = 1\<close>.\<close>

definition page_number :: window where
  "page_number = [''register_implementors'' \<mapsto> data (Num 1)]"

text \<open>
  \<^verbatim>\<open>Object.defineProperty(window, "pending_implementors", { value: 7, writable: false })\<close>
\<close>

definition page_readonly :: window where
  "page_readonly = [''pending_implementors'' \<mapsto> \<lparr>val = Num 7, writable = False\<rparr>]"

text \<open>\<^verbatim>\<open>function (imp) { }\<close>\<close>

definition host_returns :: host where
  "host_returns f args w = Some (Inr w)"

text \<open>\<^verbatim>\<open>function (imp) { window.registered = imp; }\<close> on a page without that global.\<close>

definition host_records :: host where
  "host_records f args w =
    Some (Inr (w(''registered'' \<mapsto> data (case args of [] \<Rightarrow> Undefined | a # _ \<Rightarrow> a))))"

text \<open>\<^verbatim>\<open>function (imp) { window.implementors = imp; }\<close> on a page without that global.\<close>

definition host_publishes :: host where
  "host_publishes f args w =
    Some (Inr (w(''implementors'' \<mapsto> data (case args of [] \<Rightarrow> Undefined | a # _ \<Rightarrow> a))))"

text \<open>\<^verbatim>\<open>function (imp) { throw "no list"; }\<close>\<close>

definition host_throws :: host where
  "host_throws f args w = Some (Inl (Str ''no list''))"

text \<open>\<^verbatim>\<open>function (imp) { for (;;) { } }\<close>\<close>

definition host_loops :: host where
  "host_loops f args w = None"

text \<open>\<^verbatim>\<open>function (imp) { window.heads = Math.random() < 0.5; }\<close> on a page without that global.\<close>

definition host_tosses :: nd_host where
  "host_tosses f args w =
    {Some (Inr (w(''heads'' \<mapsto> data (Bool True)))),
     Some (Inr (w(''heads'' \<mapsto> data (Bool False))))}"

section \<open>Facts about the table\<close>

lemma intermediate_first:
  "lazy_static_impls = Arr [Str impl_IntermediateBox, Str impl_FrontPlace, Str impl_BackPlace]"
  "regex_syntax_impls = Arr [Str impl_IntermediateBox, Str impl_FrontPlace, Str impl_BackPlace]"
  "libc_impls = Arr [Str impl_IntermediateBox, Str impl_FrontPlace, Str impl_BackPlace]"
  "serde_impls = Arr [Str impl_IntermediateBox, Str impl_FrontPlace, Str impl_BackPlace]"
  "nix_impls = Arr [Str impl_IntermediateBox, Str impl_FrontPlace, Str impl_BackPlace]"
  "mio_impls = Arr [Str impl_IntermediateBox, Str impl_FrontPlace, Str impl_BackPlace]"
  "handlebars_impls = Arr [Str impl_IntermediateBox, Str impl_FrontPlace, Str impl_BackPlace]"
  by (simp_all add: lazy_static_impls_def regex_syntax_impls_def libc_impls_def serde_impls_def
      nix_impls_def mio_impls_def handlebars_impls_def
      impl_IntermediateBox_def impl_FrontPlace_def impl_BackPlace_def)

lemma intermediate_last:
  "ws_impls = Arr [Str impl_FrontPlace, Str impl_BackPlace, Str impl_IntermediateBox]"
  "hyper_impls = Arr [Str impl_FrontPlace, Str impl_BackPlace, Str impl_IntermediateBox]"
  "iron_impls = Arr [Str impl_FrontPlace, Str impl_BackPlace, Str impl_IntermediateBox]"
  by (simp_all add: ws_impls_def hyper_impls_def iron_impls_def
      impl_IntermediateBox_def impl_FrontPlace_def impl_BackPlace_def)

text \<open>No key is assigned twice, so the ten assignments leave ten properties in the order
  of the file.\<close>

lemma implementors_props:
  "implementors = Obj
    [(''lazy_static'', lazy_static_impls), (''regex_syntax'', regex_syntax_impls),
     (''libc'', libc_impls), (''serde'', serde_impls), (''nix'', nix_impls),
     (''mio'', mio_impls), (''ws'', ws_impls), (''hyper'', hyper_impls),
     (''handlebars'', handlebars_impls), (''iron'', iron_impls)]"
  by (simp add: implementors_def)

lemma fragments_differ:
  "impl_IntermediateBox \<noteq> impl_FrontPlace"
  "impl_IntermediateBox \<noteq> impl_BackPlace"
  "impl_FrontPlace \<noteq> impl_BackPlace"
  by (simp_all add: impl_IntermediateBox_def impl_FrontPlace_def impl_BackPlace_def)

lemma fragment_IntermediateBox: "inplace_impl_for ''IntermediateBox'' impl_IntermediateBox"
  unfolding inplace_impl_for_def impl_IntermediateBox_def by code_simp

lemma fragment_FrontPlace: "inplace_impl_for ''FrontPlace'' impl_FrontPlace"
  unfolding inplace_impl_for_def impl_FrontPlace_def by code_simp

lemma fragment_BackPlace: "inplace_impl_for ''BackPlace'' impl_BackPlace"
  unfolding inplace_impl_for_def impl_BackPlace_def by code_simp

lemma three_impls_orders:
  "three_impls (Arr [Str impl_IntermediateBox, Str impl_FrontPlace, Str impl_BackPlace])"
  "three_impls (Arr [Str impl_FrontPlace, Str impl_BackPlace, Str impl_IntermediateBox])"
  by (auto simp: three_impls_def)

section \<open>Facts about a run\<close>

lemma store_other: "k' \<noteq> k \<Longrightarrow> store w k v k' = w k'"
  by (simp add: store_def)

lemma store_read: "get_prop (store w k v) k = v"
  by (simp add: store_def get_prop_def data_def split: option.split)

lemma not_assignable_read:
  "\<not> assignable w k \<Longrightarrow> \<exists>p. w k = Some p \<and> \<not> writable p \<and> get_prop w k = val p"
  by (auto simp: assignable_def get_prop_def split: option.splits)

text \<open>The four ways a run can go, by the value read from
  \<^verbatim>\<open>window.register_implementors\<close> and the attribute of
  \<^verbatim>\<open>window.pending_implementors\<close>.\<close>

lemma script_call:
  "get_prop w ''register_implementors'' = Fun f \<Longrightarrow>
   script h w = ([Call f [implementors]], propagate (h f [implementors] w))"
  by (simp add: script_def)

lemma script_store:
  "\<not> truthy (get_prop w ''register_implementors'') \<Longrightarrow>
   assignable w ''pending_implementors'' \<Longrightarrow>
   script h w = ([Write ''pending_implementors'' implementors],
                 Some (Inr (store w ''pending_implementors'' implementors)))"
  by (simp add: script_def set_global_def)

lemma script_dropped:
  "\<not> truthy (get_prop w ''register_implementors'') \<Longrightarrow>
   \<not> assignable w ''pending_implementors'' \<Longrightarrow>
   script h w = ([], Some (Inr w))"
  by (simp add: script_def set_global_def)

lemma script_type_error:
  "truthy (get_prop w ''register_implementors'') \<Longrightarrow>
   \<not> callable (get_prop w ''register_implementors'') \<Longrightarrow>
   script h w = ([], Some (Inl (NotAFunction (get_prop w ''register_implementors''))))"
  by (cases "get_prop w ''register_implementors''") (simp_all add: script_def)

lemma callable_Fun: "callable v \<longleftrightarrow> (\<exists>f. v = Fun f)"
  by (cases v) simp_all

lemma callable_truthy: "callable v \<Longrightarrow> truthy v"
  by (cases v) simp_all

lemma script_cases [case_names invoke store dropped type_error]:
  obtains
    f where "get_prop w ''register_implementors'' = Fun f"
      and "script h w = ([Call f [implementors]], propagate (h f [implementors] w))"
  | "\<not> truthy (get_prop w ''register_implementors'')"
      and "assignable w ''pending_implementors''"
      and "script h w = ([Write ''pending_implementors'' implementors],
                         Some (Inr (store w ''pending_implementors'' implementors)))"
  | "\<not> truthy (get_prop w ''register_implementors'')"
      and "\<not> assignable w ''pending_implementors''"
      and "script h w = ([], Some (Inr w))"
  | "truthy (get_prop w ''register_implementors'')"
      and "\<not> callable (get_prop w ''register_implementors'')"
      and "script h w = ([], Some (Inl (NotAFunction (get_prop w ''register_implementors''))))"
proof (cases "truthy (get_prop w ''register_implementors'')")
  case False
  show ?thesis
  proof (cases "assignable w ''pending_implementors''")
    case True
    with False show ?thesis using script_store that(2) by blast
  next
    case no: False
    with False show ?thesis using script_dropped that(3) by blast
  qed
next
  case True
  show ?thesis
  proof (cases "callable (get_prop w ''register_implementors'')")
    case True
    then obtain f where "get_prop w ''register_implementors'' = Fun f"
      by (auto simp: callable_Fun)
    then show ?thesis using script_call that(1) by blast
  next
    case False
    with \<open>truthy (get_prop w ''register_implementors'')\<close> show ?thesis
      using script_type_error that(4) by blast
  qed
qed

text \<open>On a page whose functions are determined, the script has the one run.\<close>

lemma runs_certain: "runs (certain h) w = {script h w}"
  by (cases "get_prop w ''register_implementors''")
     (simp_all add: runs_def script_def certain_def)

lemma sample_reads:
  "get_prop page_empty ''register_implementors'' = Undefined"
  "get_prop page_with_callback ''register_implementors'' = Fun 0"
  "get_prop page_flag ''register_implementors'' = Bool True"
  "get_prop page_number ''register_implementors'' = Num 1"
  "get_prop page_readonly ''register_implementors'' = Undefined"
  by (simp_all add: get_prop_def page_empty_def page_with_callback_def page_flag_def
      page_number_def page_readonly_def data_def)

lemma sample_slots:
  "assignable page_empty ''pending_implementors''"
  "assignable page_with_callback ''pending_implementors''"
  "\<not> assignable page_readonly ''pending_implementors''"
  "get_prop page_readonly ''pending_implementors'' = Num 7"
  by (simp_all add: assignable_def get_prop_def page_empty_def page_with_callback_def
      page_readonly_def)

section \<open>The claims\<close>

text \<open>
  C7. The delivered data structure is a mapping from library-name strings to sequences
  of HTML fragment strings: every key of the \<^verbatim>\<open>implementors\<close> object is a string and every
  value is a finite list whose elements are all strings.
\<close>

theorem implementors_string_array_map: "string_array_map implementors"
  by (simp add: implementors_props string_array_map_def string_array_def
      intermediate_first intermediate_last)

text \<open>
  C9. The \<^verbatim>\<open>implementors\<close> mapping has exactly ten keys, \<^verbatim>\<open>lazy_static\<close>,
  \<^verbatim>\<open>regex_syntax\<close>, \<^verbatim>\<open>libc\<close>, \<^verbatim>\<open>serde\<close>, \<^verbatim>\<open>nix\<close>, \<^verbatim>\<open>mio\<close>, \<^verbatim>\<open>ws\<close>, \<^verbatim>\<open>hyper\<close>,
  \<^verbatim>\<open>handlebars\<close> and \<^verbatim>\<open>iron\<close>, and each key maps to a list of exactly three HTML fragment
  strings: the \<^verbatim>\<open>InPlace\<close> implementations for \<^verbatim>\<open>IntermediateBox\<close>, \<^verbatim>\<open>FrontPlace\<close> and
  \<^verbatim>\<open>BackPlace\<close>, in some order. The three fragments are pairwise different, so a list
  of length three over them holds each exactly once.
\<close>

theorem implementors_ten_keys_three_impls:
  "keys implementors =
     [''lazy_static'', ''regex_syntax'', ''libc'', ''serde'', ''nix'', ''mio'', ''ws'',
      ''hyper'', ''handlebars'', ''iron''] \<and>
   length (keys implementors) = 10 \<and>
   distinct (keys implementors) \<and>
   length (vals implementors) = 10 \<and>
   list_all three_impls (vals implementors) \<and>
   inplace_impl_for ''IntermediateBox'' impl_IntermediateBox \<and>
   inplace_impl_for ''FrontPlace'' impl_FrontPlace \<and>
   inplace_impl_for ''BackPlace'' impl_BackPlace \<and>
   distinct [impl_IntermediateBox, impl_FrontPlace, impl_BackPlace]"
proof -
  have k: "keys implementors =
     [''lazy_static'', ''regex_syntax'', ''libc'', ''serde'', ''nix'', ''mio'', ''ws'',
      ''hyper'', ''handlebars'', ''iron'']"
    by (simp add: implementors_props keys_def)
  have d: "distinct (keys implementors)"
    unfolding k by simp
  have v: "list_all three_impls (vals implementors)" "length (vals implementors) = 10"
    by (simp_all add: implementors_props vals_def intermediate_first intermediate_last
        three_impls_orders)
  have f: "distinct [impl_IntermediateBox, impl_FrontPlace, impl_BackPlace]"
    using fragments_differ by simp
  from k d v f fragment_IntermediateBox fragment_FrontPlace fragment_BackPlace
  show ?thesis by simp
qed

text \<open>
  C5. As stated, the file contains no control flow, and the mapping it delivers is a fixed
  literal constant, the same in both branches. The second half holds; the first does
  not. The last statement of the file is an \<^verbatim>\<open>if\<close>/\<^verbatim>\<open>else\<close> on
  \<^verbatim>\<open>window.register_implementors\<close>: what the script does depends on the page. On a page
  with the callback it calls and stores nothing, on a page without it stores and calls
  nothing.
\<close>

theorem glue_branches_on_the_page:
  "script host_returns page_with_callback =
     ([Call 0 [implementors]], Some (Inr page_with_callback)) \<and>
   script host_returns page_empty =
     ([Write ''pending_implementors'' implementors],
      Some (Inr (store page_empty ''pending_implementors'' implementors))) \<and>
   fst (script host_returns page_with_callback) \<noteq> fst (script host_returns page_empty)"
  by (simp add: script_call script_store sample_reads sample_slots host_returns_def)

text \<open>
  C5, amended. The file contains no loop, no state machine, no algorithm and no data
  processing of its own; its only control flow is the one two-way branch of the glue, and
  a run has at most one effect. The mapping it delivers is a fixed literal constant,
  whatever the page's functions and globals are: the argument the callback receives in
  the first branch is the table; the value the pending global holds when the second
  branch has stored is the table; every effect of a run hands over exactly the table;
  and the table is the object of the ten properties the file writes out.
\<close>

theorem delivered_is_the_table:
  "length (fst (script h w)) \<le> 1 \<and>
   (\<forall>e. e \<in> set (fst (script h w)) \<longrightarrow> delivered e = [implementors]) \<and>
   (\<forall>f. get_prop w ''register_implementors'' = Fun f \<longrightarrow>
      script h w = ([Call f [implementors]], propagate (h f [implementors] w))) \<and>
   (\<forall>k v. Write k v \<in> set (fst (script h w)) \<longrightarrow>
      v = implementors \<and>
      (\<exists>w'. snd (script h w) = Some (Inr w') \<and> get_prop w' k = implementors)) \<and>
   (\<not> truthy (get_prop w ''register_implementors'') \<and>
    assignable w ''pending_implementors'' \<longrightarrow>
      (\<exists>w'. snd (script h w) = Some (Inr w') \<and>
            get_prop w' ''pending_implementors'' = implementors)) \<and>
   implementors = Obj
     [(''lazy_static'', lazy_static_impls), (''regex_syntax'', regex_syntax_impls),
      (''libc'', libc_impls), (''serde'', serde_impls), (''nix'', nix_impls),
      (''mio'', mio_impls), (''ws'', ws_impls), (''hyper'', hyper_impls),
      (''handlebars'', handlebars_impls), (''iron'', iron_impls)]"
proof -
  have run: "length (fst (script h w)) \<le> 1 \<and>
   (\<forall>e. e \<in> set (fst (script h w)) \<longrightarrow> delivered e = [implementors]) \<and>
   (\<forall>f. get_prop w ''register_implementors'' = Fun f \<longrightarrow>
      script h w = ([Call f [implementors]], propagate (h f [implementors] w))) \<and>
   (\<forall>k v. Write k v \<in> set (fst (script h w)) \<longrightarrow>
      v = implementors \<and>
      (\<exists>w'. snd (script h w) = Some (Inr w') \<and> get_prop w' k = implementors)) \<and>
   (\<not> truthy (get_prop w ''register_implementors'') \<and>
    assignable w ''pending_implementors'' \<longrightarrow>
      (\<exists>w'. snd (script h w) = Some (Inr w') \<and>
            get_prop w' ''pending_implementors'' = implementors))"
  proof (cases h w rule: script_cases)
    case (invoke f)
    then show ?thesis by simp
  next
    case store
    then show ?thesis by (auto simp: store_read)
  next
    case dropped
    then show ?thesis by auto
  next
    case type_error
    then show ?thesis by auto
  qed
  from run implementors_props show ?thesis
    by (elim conjE) (intro conjI; assumption)
qed

theorem delivered_is_the_table_witness:
  "script host_records page_with_callback =
     ([Call 0 [implementors]], propagate (host_records 0 [implementors] page_with_callback)) \<and>
   host_records 0 [implementors] page_with_callback =
     Some (Inr (page_with_callback(''registered'' \<mapsto> data implementors))) \<and>
   delivered (Call 0 [implementors]) = [implementors] \<and>
   (\<exists>w'. snd (script host_records page_empty) = Some (Inr w') \<and>
         get_prop w' ''pending_implementors'' = implementors) \<and>
   delivered (Write ''pending_implementors'' implementors) = [implementors]"
proof -
  have c: "get_prop page_with_callback ''register_implementors'' = Fun 0"
    by (simp add: sample_reads)
  have s: "\<not> truthy (get_prop page_empty ''register_implementors'') \<and>
           assignable page_empty ''pending_implementors''"
    by (simp add: sample_reads sample_slots)
  have ec: "Call 0 [implementors] \<in> set (fst (script host_records page_with_callback))"
    by (simp add: script_call c)
  have es: "Write ''pending_implementors'' implementors
              \<in> set (fst (script host_records page_empty))"
    by (simp add: script_store s)
  have 1: "script host_records page_with_callback =
     ([Call 0 [implementors]], propagate (host_records 0 [implementors] page_with_callback))"
    using delivered_is_the_table [of host_records page_with_callback, THEN conjunct2,
        THEN conjunct2, THEN conjunct1, rule_format, OF c] .
  have 2: "host_records 0 [implementors] page_with_callback =
     Some (Inr (page_with_callback(''registered'' \<mapsto> data implementors)))"
    by (simp add: host_records_def)
  have 3: "delivered (Call 0 [implementors]) = [implementors]"
    using delivered_is_the_table [of host_records page_with_callback, THEN conjunct2,
        THEN conjunct1, rule_format, OF ec] .
  have 4: "\<exists>w'. snd (script host_records page_empty) = Some (Inr w') \<and>
         get_prop w' ''pending_implementors'' = implementors"
    using delivered_is_the_table [of host_records page_empty, THEN conjunct2,
        THEN conjunct2, THEN conjunct2, THEN conjunct2, THEN conjunct1] s
    by (rule mp)
  have 5: "delivered (Write ''pending_implementors'' implementors) = [implementors]"
    using delivered_is_the_table [of host_records page_empty, THEN conjunct2,
        THEN conjunct1, rule_format, OF es] .
  from 1 2 3 4 5 show ?thesis by simp
qed

text \<open>
  C1. As stated, for every page: if \<^verbatim>\<open>window.register_implementors\<close> is truthy the script
  invokes that callback exactly once with the table as its sole argument and does not write
  \<^verbatim>\<open>window.pending_implementors\<close>; if it is falsy the script assigns the table to
  \<^verbatim>\<open>window.pending_implementors\<close>, so the page can read it afterwards. The first half
  fails on a truthy value that is not a function: with
  \<^verbatim>\<open>window.register_implementors = true\<close> the call raises a \<^verbatim>\<open>TypeError\<close> and nothing is
  invoked. The second half fails on a page where \<^verbatim>\<open>pending_implementors\<close> is not writable:
  the assignment is dropped, the run completes, and the page still reads the old value 7.
\<close>

theorem flag_not_invoked_readonly_not_stored:
  "truthy (get_prop page_flag ''register_implementors'') \<and>
   script host_returns page_flag = ([], Some (Inl (NotAFunction (Bool True)))) \<and>
   \<not> truthy (get_prop page_readonly ''register_implementors'') \<and>
   script host_returns page_readonly = ([], Some (Inr page_readonly)) \<and>
   get_prop page_readonly ''pending_implementors'' = Num 7"
  by (simp add: script_type_error script_dropped sample_reads sample_slots)

text \<open>
  C1, amended. If \<^verbatim>\<open>window.register_implementors\<close> is a function, the script's only effect
  is one call of it with the table as the sole argument, on the global object as it found
  it, and it writes nothing. If the value is falsy and \<^verbatim>\<open>window.pending_implementors\<close>
  does not exist or is writable, the script's only effect is to store the table there, it
  completes normally, and the global then reads as the table. If the value is falsy and
  \<^verbatim>\<open>window.pending_implementors\<close> is not writable, the script has no effect and completes
  normally with the global object as it was. If the value is truthy and not a function,
  the script has no effect and ends in the \<^verbatim>\<open>TypeError\<close>.
\<close>

theorem registration_glue:
  "(get_prop w ''register_implementors'' = Fun f \<longrightarrow>
      script h w = ([Call f [implementors]], propagate (h f [implementors] w))) \<and>
   (\<not> truthy (get_prop w ''register_implementors'') \<and>
    assignable w ''pending_implementors'' \<longrightarrow>
      script h w = ([Write ''pending_implementors'' implementors],
                    Some (Inr (store w ''pending_implementors'' implementors))) \<and>
      get_prop (store w ''pending_implementors'' implementors) ''pending_implementors''
        = implementors) \<and>
   (\<not> truthy (get_prop w ''register_implementors'') \<and>
    \<not> assignable w ''pending_implementors'' \<longrightarrow>
      script h w = ([], Some (Inr w))) \<and>
   (truthy (get_prop w ''register_implementors'') \<and>
    \<not> callable (get_prop w ''register_implementors'') \<longrightarrow>
      script h w = ([], Some (Inl (NotAFunction (get_prop w ''register_implementors'')))))"
  by (simp add: script_call script_store script_dropped script_type_error store_read)

theorem registration_glue_witness:
  "script host_records page_with_callback =
     ([Call 0 [implementors]],
      Some (Inr (page_with_callback(''registered'' \<mapsto> data implementors)))) \<and>
   script host_records page_empty =
     ([Write ''pending_implementors'' implementors],
      Some (Inr (store page_empty ''pending_implementors'' implementors))) \<and>
   get_prop (store page_empty ''pending_implementors'' implementors) ''pending_implementors''
     = implementors \<and>
   script host_records page_readonly = ([], Some (Inr page_readonly)) \<and>
   script host_records page_number = ([], Some (Inl (NotAFunction (Num 1))))"
proof -
  have c: "get_prop page_with_callback ''register_implementors'' = Fun 0"
    by (simp add: sample_reads)
  have s: "\<not> truthy (get_prop page_empty ''register_implementors'') \<and>
           assignable page_empty ''pending_implementors''"
    by (simp add: sample_reads sample_slots)
  have d: "\<not> truthy (get_prop page_readonly ''register_implementors'') \<and>
           \<not> assignable page_readonly ''pending_implementors''"
    by (simp add: sample_reads sample_slots)
  have n: "truthy (get_prop page_number ''register_implementors'') \<and>
           \<not> callable (get_prop page_number ''register_implementors'')"
    by (simp add: sample_reads)
  have "script host_records page_with_callback =
     ([Call 0 [implementors]], propagate (host_records 0 [implementors] page_with_callback))"
    using registration_glue [of page_with_callback 0 host_records, THEN conjunct1] c
    by (rule mp)
  then have 1: "script host_records page_with_callback =
     ([Call 0 [implementors]],
      Some (Inr (page_with_callback(''registered'' \<mapsto> data implementors))))"
    by (simp add: host_records_def)
  have 2: "script host_records page_empty =
     ([Write ''pending_implementors'' implementors],
      Some (Inr (store page_empty ''pending_implementors'' implementors))) \<and>
     get_prop (store page_empty ''pending_implementors'' implementors) ''pending_implementors''
       = implementors"
    using registration_glue [of page_empty 0 host_records, THEN conjunct2, THEN conjunct1] s
    by (rule mp)
  have 3: "script host_records page_readonly = ([], Some (Inr page_readonly))"
    using registration_glue [of page_readonly 0 host_records, THEN conjunct2, THEN conjunct2,
        THEN conjunct1] d
    by (rule mp)
  have "script host_records page_number =
          ([], Some (Inl (NotAFunction (get_prop page_number ''register_implementors''))))"
    using registration_glue [of page_number 0 host_records, THEN conjunct2, THEN conjunct2,
        THEN conjunct2] n
    by (rule mp)
  then have 4: "script host_records page_number = ([], Some (Inl (NotAFunction (Num 1))))"
    by (simp add: sample_reads)
  from 1 2 3 4 show ?thesis by simp
qed

text \<open>
  C2. As stated, in every run either the callback is invoked or the pending global is
  written, never both and never neither. With \<^verbatim>\<open>window.register_implementors = 1\<close> the
  first branch is entered and raises the \<^verbatim>\<open>TypeError\<close>: neither happens. On a page
  without the callback where \<^verbatim>\<open>pending_implementors\<close> is not writable the second branch
  is entered and its assignment is dropped: neither happens.
\<close>

theorem neither_invoked_nor_stored:
  "filter is_call (fst (script host_returns page_number)) = [] \<and>
   filter is_write (fst (script host_returns page_number)) = [] \<and>
   snd (script host_returns page_number) = Some (Inl (NotAFunction (Num 1))) \<and>
   filter is_call (fst (script host_returns page_readonly)) = [] \<and>
   filter is_write (fst (script host_returns page_readonly)) = [] \<and>
   snd (script host_returns page_readonly) = Some (Inr page_readonly) \<and>
   get_prop page_readonly ''pending_implementors'' = Num 7"
  by (simp add: script_type_error script_dropped sample_reads sample_slots)

text \<open>
  C2, amended. In every run at most one of the two happens, never both. The callback is
  invoked, once and with the run ending as the callback ends, exactly when
  \<^verbatim>\<open>window.register_implementors\<close> is a function. The pending global is written, once and
  with the run completing on a global object that reads the table there, exactly when
  \<^verbatim>\<open>window.register_implementors\<close> is falsy and \<^verbatim>\<open>window.pending_implementors\<close> does not
  exist or is writable. Neither happens in the two remaining cases: a truthy value that
  is not a function enters the first branch, which ends in the \<^verbatim>\<open>TypeError\<close>; a falsy
  value with a \<^verbatim>\<open>pending_implementors\<close> that is not writable enters the second branch,
  which completes with the global object as it was.
\<close>

theorem one_branch_per_run:
  "length (filter is_call (fst (script h w))) + length (filter is_write (fst (script h w))) \<le> 1 \<and>
   (length (filter is_call (fst (script h w))) = 1
      \<longleftrightarrow> callable (get_prop w ''register_implementors'')) \<and>
   (length (filter is_write (fst (script h w))) = 1
      \<longleftrightarrow> \<not> truthy (get_prop w ''register_implementors'') \<and>
          assignable w ''pending_implementors'') \<and>
   (\<forall>f. get_prop w ''register_implementors'' = Fun f \<longrightarrow>
      script h w = ([Call f [implementors]], propagate (h f [implementors] w))) \<and>
   (\<not> truthy (get_prop w ''register_implementors'') \<and>
    assignable w ''pending_implementors'' \<longrightarrow>
      (\<exists>w'. script h w = ([Write ''pending_implementors'' implementors], Some (Inr w')) \<and>
            get_prop w' ''pending_implementors'' = implementors)) \<and>
   (truthy (get_prop w ''register_implementors'') \<and>
    \<not> callable (get_prop w ''register_implementors'') \<longrightarrow>
      script h w = ([], Some (Inl (NotAFunction (get_prop w ''register_implementors''))))) \<and>
   (\<not> truthy (get_prop w ''register_implementors'') \<and>
    \<not> assignable w ''pending_implementors'' \<longrightarrow>
      script h w = ([], Some (Inr w)))"
proof (cases h w rule: script_cases)
  case (invoke f)
  then show ?thesis by simp
next
  case store
  then show ?thesis by (auto simp: store_read dest: callable_truthy)
next
  case dropped
  then show ?thesis by (auto dest: callable_truthy)
next
  case type_error
  then show ?thesis by auto
qed

theorem one_branch_per_run_witness:
  "script host_returns page_with_callback =
     ([Call 0 [implementors]], propagate (host_returns 0 [implementors] page_with_callback)) \<and>
   (\<exists>w'. script host_returns page_empty =
            ([Write ''pending_implementors'' implementors], Some (Inr w')) \<and>
         get_prop w' ''pending_implementors'' = implementors) \<and>
   script host_returns page_number = ([], Some (Inl (NotAFunction (Num 1)))) \<and>
   script host_returns page_readonly = ([], Some (Inr page_readonly))"
proof -
  have c: "get_prop page_with_callback ''register_implementors'' = Fun 0"
    by (simp add: sample_reads)
  have s: "\<not> truthy (get_prop page_empty ''register_implementors'') \<and>
           assignable page_empty ''pending_implementors''"
    by (simp add: sample_reads sample_slots)
  have n: "truthy (get_prop page_number ''register_implementors'') \<and>
           \<not> callable (get_prop page_number ''register_implementors'')"
    by (simp add: sample_reads)
  have d: "\<not> truthy (get_prop page_readonly ''register_implementors'') \<and>
           \<not> assignable page_readonly ''pending_implementors''"
    by (simp add: sample_reads sample_slots)
  have 1: "script host_returns page_with_callback =
     ([Call 0 [implementors]], propagate (host_returns 0 [implementors] page_with_callback))"
    using one_branch_per_run [of host_returns page_with_callback,
        THEN conjunct2, THEN conjunct2, THEN conjunct2, THEN conjunct1, rule_format, of 0] c
    by simp
  have 2: "\<exists>w'. script host_returns page_empty =
            ([Write ''pending_implementors'' implementors], Some (Inr w')) \<and>
         get_prop w' ''pending_implementors'' = implementors"
    using one_branch_per_run [of host_returns page_empty,
        THEN conjunct2, THEN conjunct2, THEN conjunct2, THEN conjunct2, THEN conjunct1] s
    by (rule mp)
  have "script host_returns page_number =
          ([], Some (Inl (NotAFunction (get_prop page_number ''register_implementors''))))"
    using one_branch_per_run [of host_returns page_number,
        THEN conjunct2, THEN conjunct2, THEN conjunct2, THEN conjunct2, THEN conjunct2, THEN conjunct1] n
    by (rule mp)
  then have 3: "script host_returns page_number = ([], Some (Inl (NotAFunction (Num 1))))"
    by (simp add: sample_reads)
  have 4: "script host_returns page_readonly = ([], Some (Inr page_readonly))"
    using one_branch_per_run [of host_returns page_readonly,
        THEN conjunct2, THEN conjunct2, THEN conjunct2, THEN conjunct2, THEN conjunct2, THEN conjunct2] d
    by (rule mp)
  from 1 2 3 4 show ?thesis by simp
qed

text \<open>
  C3. As stated, on every page where \<^verbatim>\<open>window.register_implementors\<close>, when present, is a
  callable function, execution completes without raising any error, in either branch.
  The first branch ends the way the callback ends: with a callback that throws, the
  script ends in that uncaught error.
\<close>

theorem throwing_callback_ends_in_error:
  "callable (get_prop page_with_callback ''register_implementors'') \<and>
   script host_throws page_with_callback =
     ([Call 0 [implementors]], Some (Inl (Uncaught (Str ''no list''))))"
  by (simp add: script_call sample_reads host_throws_def)

text \<open>
  C3, amended. On every page where \<^verbatim>\<open>window.register_implementors\<close>, when truthy, is a
  function, the script raises no error of its own: it never ends in the \<^verbatim>\<open>TypeError\<close>;
  the second branch always completes normally; the first branch completes normally when
  the callback returns, and the only error a run can end in is a value the callback
  threw.
\<close>

theorem no_error_of_its_own:
  assumes "truthy (get_prop w ''register_implementors'') \<longrightarrow>
           callable (get_prop w ''register_implementors'')"
  shows "(\<forall>v. snd (script h w) \<noteq> Some (Inl (NotAFunction v))) \<and>
         (\<not> truthy (get_prop w ''register_implementors'') \<longrightarrow>
            (\<exists>w'. snd (script h w) = Some (Inr w'))) \<and>
         (\<forall>f w'. get_prop w ''register_implementors'' = Fun f \<and>
                  h f [implementors] w = Some (Inr w') \<longrightarrow>
            snd (script h w) = Some (Inr w')) \<and>
         (\<forall>x. snd (script h w) = Some (Inl (Uncaught x)) \<longleftrightarrow>
            (\<exists>f. get_prop w ''register_implementors'' = Fun f \<and>
                 h f [implementors] w = Some (Inl x)))"
proof (cases h w rule: script_cases)
  case (invoke f)
  then show ?thesis
    by (cases "h f [implementors] w" rule: propagate.cases) auto
next
  case store
  then show ?thesis by auto
next
  case dropped
  then show ?thesis by auto
next
  case type_error
  with assms show ?thesis by simp
qed

theorem no_error_of_its_own_witness:
  "snd (script host_records page_with_callback) =
     Some (Inr (page_with_callback(''registered'' \<mapsto> data implementors))) \<and>
   (\<exists>w'. snd (script host_records page_empty) = Some (Inr w')) \<and>
   (\<exists>w'. snd (script host_records page_readonly) = Some (Inr w')) \<and>
   (\<forall>v. snd (script host_throws page_with_callback) \<noteq> Some (Inl (NotAFunction v)))"
proof -
  have c: "truthy (get_prop page_with_callback ''register_implementors'') \<longrightarrow>
           callable (get_prop page_with_callback ''register_implementors'')"
    by (simp add: sample_reads)
  have s: "truthy (get_prop page_empty ''register_implementors'') \<longrightarrow>
           callable (get_prop page_empty ''register_implementors'')"
    by (simp add: sample_reads)
  have d: "truthy (get_prop page_readonly ''register_implementors'') \<longrightarrow>
           callable (get_prop page_readonly ''register_implementors'')"
    by (simp add: sample_reads)
  have r: "get_prop page_with_callback ''register_implementors'' = Fun 0 \<and>
           host_records 0 [implementors] page_with_callback =
             Some (Inr (page_with_callback(''registered'' \<mapsto> data implementors)))"
    by (simp add: sample_reads host_records_def)
  have e: "\<not> truthy (get_prop page_empty ''register_implementors'')"
    by (simp add: sample_reads)
  have e': "\<not> truthy (get_prop page_readonly ''register_implementors'')"
    by (simp add: sample_reads)
  have 1: "snd (script host_records page_with_callback) =
          Some (Inr (page_with_callback(''registered'' \<mapsto> data implementors)))"
    using no_error_of_its_own [OF c, of host_records, THEN conjunct2, THEN conjunct2,
        THEN conjunct1, rule_format, OF r] .
  have 2: "\<exists>w'. snd (script host_records page_empty) = Some (Inr w')"
    using no_error_of_its_own [OF s, of host_records, THEN conjunct2, THEN conjunct1] e
    by (rule mp)
  have 3: "\<exists>w'. snd (script host_records page_readonly) = Some (Inr w')"
    using no_error_of_its_own [OF d, of host_records, THEN conjunct2, THEN conjunct1] e'
    by (rule mp)
  have 4: "\<forall>v. snd (script host_throws page_with_callback) \<noteq> Some (Inl (NotAFunction v))"
    using no_error_of_its_own [OF c, of host_throws, THEN conjunct1] .
  from 1 2 3 4 show ?thesis by simp
qed

text \<open>
  C4. As stated, on every page every global binding other than
  \<^verbatim>\<open>pending_implementors\<close> has the same value after execution as before. In the first
  branch the page after execution is the one the callback leaves: with a callback that
  records its argument in \<^verbatim>\<open>window.registered\<close>, that global differs afterwards.
\<close>

theorem recording_callback_changes_a_global:
  "snd (script host_records page_with_callback) =
     Some (Inr (page_with_callback(''registered'' \<mapsto> data implementors))) \<and>
   page_with_callback ''registered'' = None \<and>
   (page_with_callback(''registered'' \<mapsto> data implementors)) ''registered''
     = Some (data implementors) \<and>
   ''registered'' \<noteq> ''pending_implementors''"
proof -
  have "snd (script host_records page_with_callback) =
          Some (Inr (page_with_callback(''registered'' \<mapsto> data implementors)))"
    by (simp add: script_call sample_reads host_records_def)
  moreover have "page_with_callback ''registered'' = None"
    by (simp add: page_with_callback_def)
  ultimately show ?thesis by simp
qed

text \<open>
  C4, amended. The script's own statements modify no global other than
  \<^verbatim>\<open>window.pending_implementors\<close>: every assignment it performs is to that name. In the
  second branch the run completes with every other binding as it was before. In the
  first branch the script assigns nothing, the callback starts on the global object
  unchanged, and the run ends the way the callback ends, with whatever the callback
  changed.
\<close>

theorem script_frame:
  "(\<forall>k v. Write k v \<in> set (fst (script h w)) \<longrightarrow> k = ''pending_implementors'') \<and>
   (\<not> truthy (get_prop w ''register_implementors'') \<longrightarrow>
      (\<exists>w'. snd (script h w) = Some (Inr w') \<and>
            (\<forall>k. k \<noteq> ''pending_implementors'' \<longrightarrow> w' k = w k))) \<and>
   (\<forall>f. get_prop w ''register_implementors'' = Fun f \<longrightarrow>
      filter is_write (fst (script h w)) = [] \<and>
      snd (script h w) = propagate (h f [implementors] w))"
  by (cases h w rule: script_cases) (auto simp: store_other)

theorem script_frame_witness:
  "(\<exists>w'. snd (script host_records page_empty) = Some (Inr w') \<and>
         w' ''registered'' = page_empty ''registered'') \<and>
   filter is_write (fst (script host_records page_with_callback)) = [] \<and>
   snd (script host_records page_with_callback) =
     propagate (host_records 0 [implementors] page_with_callback) \<and>
   Write ''pending_implementors'' implementors \<in> set (fst (script host_records page_empty))"
proof -
  have e: "\<not> truthy (get_prop page_empty ''register_implementors'')"
    by (simp add: sample_reads)
  have c: "get_prop page_with_callback ''register_implementors'' = Fun 0"
    by (simp add: sample_reads)
  have m: "Write ''pending_implementors'' implementors
             \<in> set (fst (script host_records page_empty))"
    by (simp add: script_store e sample_slots)
  have "\<exists>w'. snd (script host_records page_empty) = Some (Inr w') \<and>
             (\<forall>k. k \<noteq> ''pending_implementors'' \<longrightarrow> w' k = page_empty k)"
    using script_frame [of host_records page_empty, THEN conjunct2, THEN conjunct1] e
    by (rule mp)
  then obtain w' where w': "snd (script host_records page_empty) = Some (Inr w')"
      and same: "\<forall>k. k \<noteq> ''pending_implementors'' \<longrightarrow> w' k = page_empty k"
    by (elim exE conjE)
  have "w' ''registered'' = page_empty ''registered''"
    using same [rule_format, of "''registered''"] by simp
  with w' have a: "\<exists>w'. snd (script host_records page_empty) = Some (Inr w') \<and>
             w' ''registered'' = page_empty ''registered''"
    by simp
  have b: "filter is_write (fst (script host_records page_with_callback)) = [] \<and>
      snd (script host_records page_with_callback) =
        propagate (host_records 0 [implementors] page_with_callback)"
    using script_frame [of host_records page_with_callback, THEN conjunct2, THEN conjunct2,
        rule_format, of 0] c
    by simp
  from a b m show ?thesis by simp
qed

text \<open>
  C6. As stated, execution terminates on every page. The first branch returns only if
  the callback returns: with a callback that loops, the script never returns.
\<close>

theorem looping_callback_never_returns:
  "script host_loops page_with_callback = ([Call 0 [implementors]], None)"
  by (simp add: script_call sample_reads host_loops_def)

text \<open>
  C6, amended. The script is a single pass with no loop of its own: a run performs at
  most one action, and it fails to return exactly when it called the callback and the
  callback does not return. So it terminates on every page whose callback, if invoked
  on the table, terminates, and always in the second branch.
\<close>

theorem script_returns_unless_callback_loops:
  "length (fst (script h w)) \<le> 1 \<and>
   (snd (script h w) = None \<longleftrightarrow>
      (\<exists>f. get_prop w ''register_implementors'' = Fun f \<and> h f [implementors] w = None)) \<and>
   ((\<forall>f. h f [implementors] w \<noteq> None) \<longrightarrow> (\<exists>r. snd (script h w) = Some r)) \<and>
   (\<not> truthy (get_prop w ''register_implementors'') \<longrightarrow> (\<exists>r. snd (script h w) = Some r))"
proof (cases h w rule: script_cases)
  case (invoke f)
  then show ?thesis
    by (cases "h f [implementors] w" rule: propagate.cases) auto
next
  case store
  then show ?thesis by auto
next
  case dropped
  then show ?thesis by auto
next
  case type_error
  then show ?thesis by auto
qed

theorem script_returns_unless_callback_loops_witness:
  "(\<exists>r. snd (script host_returns page_with_callback) = Some r) \<and>
   (\<exists>r. snd (script host_loops page_empty) = Some r)"
proof -
  have t: "\<forall>f. host_returns f [implementors] page_with_callback \<noteq> None"
    by (simp add: host_returns_def)
  have e: "\<not> truthy (get_prop page_empty ''register_implementors'')"
    by (simp add: sample_reads)
  have "\<exists>r. snd (script host_returns page_with_callback) = Some r"
    using script_returns_unless_callback_loops [of host_returns page_with_callback,
        THEN conjunct2, THEN conjunct2, THEN conjunct1] t
    by (rule mp)
  moreover have "\<exists>r. snd (script host_loops page_empty) = Some r"
    using script_returns_unless_callback_loops [of host_loops page_empty,
        THEN conjunct2, THEN conjunct2, THEN conjunct2] e
    by (rule mp)
  ultimately show ?thesis by (rule conjI)
qed

text \<open>
  C8. As stated, any two runs of the script from equal initial environments end in equal
  environments. In the first branch the run ends the way the callback ends, and a
  callback need not be determined by the global object it is called on: with a callback
  that stores \<^verbatim>\<open>Math.random() < 0.5\<close> in \<^verbatim>\<open>window.heads\<close>, two runs from the same page end
  with different values there.
\<close>

theorem tossing_callback_ends_two_ways:
  "([Call 0 [implementors]], Some (Inr (page_with_callback(''heads'' \<mapsto> data (Bool True)))))
     \<in> runs host_tosses page_with_callback \<and>
   ([Call 0 [implementors]], Some (Inr (page_with_callback(''heads'' \<mapsto> data (Bool False)))))
     \<in> runs host_tosses page_with_callback \<and>
   get_prop (page_with_callback(''heads'' \<mapsto> data (Bool True))) ''heads'' = Bool True \<and>
   get_prop (page_with_callback(''heads'' \<mapsto> data (Bool False))) ''heads'' = Bool False"
proof -
  have "([Call 0 [implementors]], Some (Inr (page_with_callback(''heads'' \<mapsto> data (Bool True)))))
          \<in> runs host_tosses page_with_callback \<and>
        ([Call 0 [implementors]], Some (Inr (page_with_callback(''heads'' \<mapsto> data (Bool False)))))
          \<in> runs host_tosses page_with_callback"
    by (simp add: runs_def sample_reads host_tosses_def)
  moreover have
    "get_prop (page_with_callback(''heads'' \<mapsto> data (Bool True))) ''heads'' = Bool True \<and>
     get_prop (page_with_callback(''heads'' \<mapsto> data (Bool False))) ''heads'' = Bool False"
    by (simp add: get_prop_def data_def)
  ultimately show ?thesis by simp
qed

text \<open>
  C8, amended. The script's own part of a run is deterministic: any two runs from equal
  initial environments take the same branch and have the same effect, the same callback
  call with the same table or the same assignment of the same table. Two runs that do
  not call a function end equal. Two runs that call the callback end in equal
  environments whenever the callback, called with the table on that global object, can
  go only one way; on a page all of whose functions are determined by their arguments
  and the global object, the script has exactly one run.
\<close>

theorem script_deterministic:
  "(r1 \<in> runs H w \<and> r2 \<in> runs H w \<longrightarrow>
      fst r1 = fst r2 \<and>
      (\<not> callable (get_prop w ''register_implementors'') \<longrightarrow> r1 = r2) \<and>
      ((\<forall>f a b. get_prop w ''register_implementors'' = Fun f \<and>
                a \<in> H f [implementors] w \<and> b \<in> H f [implementors] w \<longrightarrow> a = b)
         \<longrightarrow> r1 = r2)) \<and>
   runs (certain h) w = {script h w}"
proof -
  have "fst r1 = fst r2 \<and>
      (\<not> callable (get_prop w ''register_implementors'') \<longrightarrow> r1 = r2) \<and>
      ((\<forall>f a b. get_prop w ''register_implementors'' = Fun f \<and>
                a \<in> H f [implementors] w \<and> b \<in> H f [implementors] w \<longrightarrow> a = b)
         \<longrightarrow> r1 = r2)"
    if r: "r1 \<in> runs H w" "r2 \<in> runs H w"
  proof (cases "get_prop w ''register_implementors''")
    case (Fun f)
    with r obtain a b where "a \<in> H f [implementors] w" "b \<in> H f [implementors] w"
        "r1 = ([Call f [implementors]], propagate a)"
        "r2 = ([Call f [implementors]], propagate b)"
      by (auto simp: runs_def)
    with Fun show ?thesis by auto
  qed (use r in \<open>auto simp: runs_def split: if_splits\<close>)
  then show ?thesis by (simp add: runs_certain)
qed

theorem script_deterministic_witness:
  "fst ` runs host_tosses page_with_callback = {[Call 0 [implementors]]} \<and>
   (\<exists>r. runs host_tosses page_empty = {r}) \<and>
   runs (certain host_records) page_with_callback = {script host_records page_with_callback}"
proof -
  have t: "([Call 0 [implementors]],
            Some (Inr (page_with_callback(''heads'' \<mapsto> data (Bool True)))))
             \<in> runs host_tosses page_with_callback"
    by (simp add: runs_def sample_reads host_tosses_def)
  have same: "fst r' = [Call 0 [implementors]]"
    if "r' \<in> runs host_tosses page_with_callback" for r'
    using script_deterministic [of r' host_tosses page_with_callback _ host_returns,
        THEN conjunct1, rule_format, OF conjI [OF that t], THEN conjunct1]
    by simp
  have 1: "fst ` runs host_tosses page_with_callback = {[Call 0 [implementors]]}"
  proof (rule equalityI; rule subsetI)
    fix x assume "x \<in> fst ` runs host_tosses page_with_callback"
    then obtain r' where "r' \<in> runs host_tosses page_with_callback" and "x = fst r'"
      by (rule imageE)
    with same show "x \<in> {[Call 0 [implementors]]}" by simp
  next
    fix x assume "x \<in> {[Call 0 [implementors]]}"
    then have "x = fst ([Call 0 [implementors]],
        Some (Inr (page_with_callback(''heads'' \<mapsto> data (Bool True)))))"
      by simp
    with t show "x \<in> fst ` runs host_tosses page_with_callback"
      by (rule rev_image_eqI)
  qed
  have n: "\<not> callable (get_prop page_empty ''register_implementors'')"
    by (simp add: sample_reads)
  have "\<exists>r. r \<in> runs host_tosses page_empty"
    by (simp add: runs_def sample_reads)
  then obtain r where r: "r \<in> runs host_tosses page_empty" ..
  have one: "r' = r" if "r' \<in> runs host_tosses page_empty" for r'
    using script_deterministic [of r' host_tosses page_empty r host_returns,
        THEN conjunct1, rule_format, OF conjI [OF that r], THEN conjunct2, THEN conjunct1,
        rule_format, OF n] .
  have "runs host_tosses page_empty = {r}"
  proof (rule equalityI; rule subsetI)
    fix x assume "x \<in> runs host_tosses page_empty"
    then have "x = r" by (rule one)
    then show "x \<in> {r}" by simp
  next
    fix x assume "x \<in> {r}"
    then have "x = r" by simp
    with r show "x \<in> runs host_tosses page_empty" by simp
  qed
  then have 2: "\<exists>r. runs host_tosses page_empty = {r}" ..
  have 3: "runs (certain host_records) page_with_callback =
             {script host_records page_with_callback}"
    using script_deterministic [where w = page_with_callback and h = host_records,
        THEN conjunct2] .
  from 1 2 3 show ?thesis by (intro conjI)
qed

text \<open>
  C10. As stated, after execution no global named \<^verbatim>\<open>implementors\<close> exists unless it
  existed before. In the first branch the page after execution is the one the callback
  leaves: a callback that stores its argument in \<^verbatim>\<open>window.implementors\<close> leaves such a
  global, holding the table, where there was none.
\<close>

theorem publishing_callback_leaves_a_global:
  "page_with_callback ''implementors'' = None \<and>
   snd (script host_publishes page_with_callback) =
     Some (Inr (page_with_callback(''implementors'' \<mapsto> data implementors)))"
proof -
  have "page_with_callback ''implementors'' = None"
    by (simp add: page_with_callback_def)
  moreover have "snd (script host_publishes page_with_callback) =
     Some (Inr (page_with_callback(''implementors'' \<mapsto> data implementors)))"
    by (simp add: script_call sample_reads host_publishes_def)
  ultimately show ?thesis by (rule conjI)
qed

text \<open>
  C10, amended. The script itself never creates or changes a global named
  \<^verbatim>\<open>implementors\<close>: no assignment it performs is to that name. In the second branch the
  run completes with \<^verbatim>\<open>window.implementors\<close> as it was before (absent if it was absent),
  and a global that holds the table afterwards either held it before or is
  \<^verbatim>\<open>pending_implementors\<close>. In the first branch the script hands the table over only as
  the argument of the one call, to a callback that starts on the global object
  unchanged; a global of that name afterwards is the callback's own doing.
\<close>

theorem implementors_stays_local:
  "(\<forall>v. Write ''implementors'' v \<notin> set (fst (script h w))) \<and>
   (\<not> truthy (get_prop w ''register_implementors'') \<longrightarrow>
      (\<exists>w'. snd (script h w) = Some (Inr w') \<and>
            w' ''implementors'' = w ''implementors'' \<and>
            (\<forall>k p. w' k = Some p \<and> val p = implementors \<longrightarrow>
                 w k = Some p \<or> k = ''pending_implementors''))) \<and>
   (\<forall>f. get_prop w ''register_implementors'' = Fun f \<longrightarrow>
      fst (script h w) = [Call f [implementors]] \<and>
      snd (script h w) = propagate (h f [implementors] w))"
proof (cases h w rule: script_cases)
  case (invoke f)
  then show ?thesis by simp
next
  case store
  then show ?thesis by (auto simp: store_other)
next
  case dropped
  then show ?thesis by auto
next
  case type_error
  then show ?thesis by auto
qed

theorem implementors_stays_local_witness:
  "(\<exists>w'. snd (script host_publishes page_empty) = Some (Inr w') \<and>
         w' ''implementors'' = page_empty ''implementors'') \<and>
   fst (script host_publishes page_with_callback) = [Call 0 [implementors]] \<and>
   snd (script host_publishes page_with_callback) =
     propagate (host_publishes 0 [implementors] page_with_callback)"
proof -
  have e: "\<not> truthy (get_prop page_empty ''register_implementors'')"
    by (simp add: sample_reads)
  have c: "get_prop page_with_callback ''register_implementors'' = Fun 0"
    by (simp add: sample_reads)
  have "\<exists>w'. snd (script host_publishes page_empty) = Some (Inr w') \<and>
          w' ''implementors'' = page_empty ''implementors'' \<and>
          (\<forall>k p. w' k = Some p \<and> val p = implementors \<longrightarrow>
               page_empty k = Some p \<or> k = ''pending_implementors'')"
    using implementors_stays_local [of host_publishes page_empty, THEN conjunct2,
        THEN conjunct1] e
    by (rule mp)
  then have a: "\<exists>w'. snd (script host_publishes page_empty) = Some (Inr w') \<and>
          w' ''implementors'' = page_empty ''implementors''"
    by (elim exE conjE) (rule exI, rule conjI)
  have b: "fst (script host_publishes page_with_callback) = [Call 0 [implementors]] \<and>
      snd (script host_publishes page_with_callback) =
        propagate (host_publishes 0 [implementors] page_with_callback)"
    using implementors_stays_local [of host_publishes page_with_callback, THEN conjunct2,
        THEN conjunct2, rule_format, of 0] c
    by simp
  from a b show ?thesis by (rule conjI)
qed

end
